theory Spec2Isabelle
  imports Complex_Main
begin

section \<open>Pose estimation relative to a circle pattern\<close>

text \<open>
  A shallow embedding of \<^verbatim>\<open>visual_servo/estimation.py\<close> (class \<^verbatim>\<open>PoseEstimator\<close>) and of
  the free functions \<^verbatim>\<open>calc_circle_pattern\<close> and \<^verbatim>\<open>get_pose\<close> of
  \<^verbatim>\<open>visual_servo_control.py\<close>.

  Conventions of the embedding:
  \<^item> Python \<^verbatim>\<open>int\<close> is \<open>int\<close>; Python and numpy floats are idealised as \<open>real\<close>, so
    \<^verbatim>\<open>np.cos\<close>, \<^verbatim>\<open>np.sin\<close> and \<^verbatim>\<open>np.rad2deg\<close> are the real functions and no rounding
    is modelled;
  \<^item> an exception is a value \<open>Inl e\<close> of a sum type;
  \<^item> the OpenCV entry points (\<^verbatim>\<open>cv2.findCirclesGrid\<close>, \<^verbatim>\<open>cv2.solvePnP\<close>,
    \<^verbatim>\<open>cv2.getOptimalNewCameraMatrix\<close>) are not code of this repository: they are
    parameters of the functions that call them;
  \<^item> an array of shape \<open>(N, 3)\<close> is a list of triples, a \<open>3 \<times> 1\<close> vector a triple.
\<close>

subsection \<open>Errors and arrays\<close>

datatype py_error = ValueError | IndexError | TypeError | CvError

type_synonym point3 = "real \<times> real \<times> real"
type_synonym point2 = "real \<times> real"

text \<open>Calibration data: a one-dimensional array or a two-dimensional one (after \<^verbatim>\<open>reshape\<close>).\<close>

datatype array = Array1 "real list" | Array2 "real list list"

text \<open>\<^verbatim>\<open>np.zeros([n, 3])\<close>: a negative dimension raises \<^verbatim>\<open>ValueError\<close>.\<close>

definition np_zeros3 :: "int \<Rightarrow> py_error + point3 list" where
  "np_zeros3 n = (if n < 0 then Inl ValueError else Inr (replicate (nat n) (0, 0, 0)))"

text \<open>Writing one column of a row; numpy counts a negative column from the end.\<close>

definition set_col :: "point3 \<Rightarrow> int \<Rightarrow> real \<Rightarrow> py_error + point3" where
  "set_col p c v =
     (let c' = (if c < 0 then 3 + c else c) in
      case p of (x, y, z) \<Rightarrow>
        if c' = 0 then Inr (v, y, z)
        else if c' = 1 then Inr (x, v, z)
        else if c' = 2 then Inr (x, y, v)
        else Inl IndexError)"

text \<open>
  \<^verbatim>\<open>a[idx, c] = v\<close>: a negative row index counts from the end, an index out of
  range raises \<^verbatim>\<open>IndexError\<close>.
\<close>

definition setitem :: "point3 list \<Rightarrow> int \<Rightarrow> int \<Rightarrow> real \<Rightarrow> py_error + point3 list" where
  "setitem a idx c v =
     (let n = int (length a); k = (if idx < 0 then n + idx else idx) in
      if 0 \<le> k \<and> k < n then
        (case set_col (a ! nat k) c v of
           Inl e \<Rightarrow> Inl e
         | Inr p \<Rightarrow> Inr (a[nat k := p]))
      else Inl IndexError)"

text \<open>\<^verbatim>\<open>range(n)\<close>: empty when \<open>n \<le> 0\<close>.\<close>

definition py_range :: "int \<Rightarrow> int list" where
  "py_range n = map int [0..<nat n]"

subsection \<open>Pattern geometry\<close>

text \<open>
  The body of the inner loop \<^verbatim>\<open>for j in range(height)\<close> of
  \<^verbatim>\<open>_calc_circle_pattern\<close>, over the indices still to visit.
\<close>

fun pattern_loop_j ::
  "real \<Rightarrow> int \<Rightarrow> int \<Rightarrow> int \<Rightarrow> int list \<Rightarrow> point3 list \<Rightarrow> py_error + point3 list" where
  "pattern_loop_j d h w i [] cp = Inr cp"
| "pattern_loop_j d h w i (j # js) cp =
     (case setitem cp (i + j * w) 0 (d * real_of_int i - d * real_of_int (w - 1) / 2) of
        Inl e \<Rightarrow> Inl e
      | Inr cp1 \<Rightarrow>
          (case setitem cp1 (i + j * w) 1 (d * real_of_int j - d * real_of_int (h - 1) / 2) of
             Inl e \<Rightarrow> Inl e
           | Inr cp2 \<Rightarrow> pattern_loop_j d h w i js cp2))"

text \<open>The outer loop \<^verbatim>\<open>for i in range(width)\<close>.\<close>

fun pattern_loop_i ::
  "real \<Rightarrow> int \<Rightarrow> int \<Rightarrow> int list \<Rightarrow> point3 list \<Rightarrow> py_error + point3 list" where
  "pattern_loop_i d h w [] cp = Inr cp"
| "pattern_loop_i d h w (i # is) cp =
     (case pattern_loop_j d h w i (py_range h) cp of
        Inl e \<Rightarrow> Inl e
      | Inr cp' \<Rightarrow> pattern_loop_i d h w is cp')"

text \<open>
  \<^verbatim>\<open>PoseEstimator._calc_circle_pattern\<close>, as a function of the three fields it reads:
  \<^verbatim>\<open>circle_pattern_dist\<close>, \<^verbatim>\<open>height\<close> (rows) and \<^verbatim>\<open>width\<close> (columns).
\<close>

definition PoseEstimator_calc_circle_pattern :: "real \<Rightarrow> int \<Rightarrow> int \<Rightarrow> py_error + point3 list" where
  "PoseEstimator_calc_circle_pattern d h w =
     (case np_zeros3 (h * w) of
        Inl e \<Rightarrow> Inl e
      | Inr cp \<Rightarrow> pattern_loop_i d h w (py_range w) cp)"

text \<open>
  The free function \<^verbatim>\<open>calc_circle_pattern(height, width)\<close> of
  \<^verbatim>\<open>visual_servo_control.py\<close>: the same two loops with the spacing fixed to 0.0125.
\<close>

definition calc_circle_pattern :: "int \<Rightarrow> int \<Rightarrow> py_error + point3 list" where
  "calc_circle_pattern h w =
     (case np_zeros3 (h * w) of
        Inl e \<Rightarrow> Inl e
      | Inr cp \<Rightarrow> pattern_loop_i 0.0125 h w (py_range w) cp)"

subsection \<open>The OpenCV entry points\<close>

text \<open>The two fields set on \<^verbatim>\<open>cv2.SimpleBlobDetector_Params()\<close>.\<close>

record blob_params =
  minArea :: int
  minDistBetweenBlobs :: int

text \<open>
  \<^verbatim>\<open>cv2.getOptimalNewCameraMatrix(cameraMatrix, distCoeffs, imageSize, alpha)\<close> returns the
  new matrix and a region of interest.
\<close>

type_synonym rectifier =
  "array \<Rightarrow> array \<Rightarrow> int \<times> int \<Rightarrow> real \<Rightarrow> array \<times> (int \<times> int \<times> int \<times> int)"

text \<open>
  \<^verbatim>\<open>cv2.findCirclesGrid(obs, patternSize, flags=CALIB_CB_SYMMETRIC_GRID, blobDetector)\<close>
  returns the detection flag and the centers (\<open>None\<close> when there are none).
\<close>

type_synonym 'img grid_finder =
  "'img \<Rightarrow> int \<times> int \<Rightarrow> blob_params \<Rightarrow> bool \<times> point2 list option"

text \<open>
  \<^verbatim>\<open>cv2.solvePnP(objectPoints, imagePoints, cameraMatrix, distCoeffs)\<close> returns the
  success flag, the rotation vector and the translation vector, or raises.
\<close>

type_synonym pnp_solver =
  "point3 list \<Rightarrow> point2 list \<Rightarrow> array option \<Rightarrow> array option \<Rightarrow>
     py_error + (bool \<times> point3 \<times> point3)"

text \<open>The calls a run of \<^verbatim>\<open>get_pose\<close> makes to OpenCV, in order.\<close>

datatype ext_call = FindCirclesGrid | SolvePnP

definition rad2deg :: "real \<Rightarrow> real" where
  "rad2deg x = x * 180 / pi"

subsection \<open>Calibration profiles\<close>

text \<open>The locals \<^verbatim>\<open>camera_matrix\<close> and \<^verbatim>\<open>distortion_coefs\<close> of \<^verbatim>\<open>initialize_camera_matrix\<close>.\<close>

definition local_camera_matrix :: array where
  "local_camera_matrix =
     Array2 [[305.5718893575089, 0, 303.0797142544728],
             [0, 308.8338858195428, 231.8845403702499],
             [0, 0, 1]]"

definition local_distortion_coefs :: array where
  "local_distortion_coefs =
     Array2 [[-0.2, 0.0305, 0.0005859930422629722, -0.0006697840226199427, 0]]"

definition new_camera_matrix :: "rectifier \<Rightarrow> array" where
  "new_camera_matrix g = fst (g local_camera_matrix local_distortion_coefs (640, 480) 0)"

record PoseEstimator =
  detector :: blob_params
  circle_pattern_dist :: real
  height :: int
  width :: int
  circle_pattern :: "point3 list"
  target_distance :: real
  camera_matrix :: "array option"
  distortion_coefs :: "array option"
  counter :: int

text \<open>
  \<^verbatim>\<open>PoseEstimator.initialize_camera_matrix\<close>: an \<^verbatim>\<open>if\<close>/\<^verbatim>\<open>elif\<close> chain over the modes
  0 to 4 with no \<^verbatim>\<open>else\<close>; any other mode leaves both fields as they are.
\<close>

definition initialize_camera_matrix :: "rectifier \<Rightarrow> PoseEstimator \<Rightarrow> int \<Rightarrow> PoseEstimator" where
  "initialize_camera_matrix g self camera_mode =
     (if camera_mode = 0 then
        self\<lparr>camera_matrix := Some (new_camera_matrix g),
             distortion_coefs := Some (Array2 [[0, 0, 0, 0, 0]])\<rparr>
      else if camera_mode = 1 then
        self\<lparr>camera_matrix := Some (new_camera_matrix g),
             distortion_coefs := Some local_distortion_coefs\<rparr>
      else if camera_mode = 2 then
        self\<lparr>camera_matrix := Some local_camera_matrix,
             distortion_coefs := Some (Array2 [[0, 0, 0, 0, 0]])\<rparr>
      else if camera_mode = 3 then
        self\<lparr>camera_matrix := Some local_camera_matrix,
             distortion_coefs := Some local_distortion_coefs\<rparr>
      else if camera_mode = 4 then
        self\<lparr>camera_matrix :=
               Some (Array2 [[307.7379294605756, 0, 329.692367951685],
                             [0, 314.987773443905, 244.4605588877848],
                             [0, 0, 1]]),
             distortion_coefs :=
               Some (Array2 [[-0.2565888993516047, 0.04481160508242147,
                              -0.00505275149956019, 0.00130856936797665, 0]])\<rparr>
      else self)"

text \<open>
  \<^verbatim>\<open>PoseEstimator.__init__\<close>. The pattern is computed first and may raise; the two
  calibration fields start as \<open>None\<close>; \<^verbatim>\<open>counter\<close> is assigned last.
\<close>

definition PoseEstimator_init ::
  "rectifier \<Rightarrow> int \<Rightarrow> int \<Rightarrow> int \<Rightarrow> int \<Rightarrow> real \<Rightarrow> real \<Rightarrow> int \<Rightarrow> py_error + PoseEstimator" where
  "PoseEstimator_init g min_area min_dist_between_blobs height' width' circle_pattern_dist'
       target_distance' camera_mode =
     (case PoseEstimator_calc_circle_pattern circle_pattern_dist' height' width' of
        Inl e \<Rightarrow> Inl e
      | Inr cp \<Rightarrow>
          Inr ((initialize_camera_matrix g
                  \<lparr>detector = \<lparr>minArea = min_area, minDistBetweenBlobs = min_dist_between_blobs\<rparr>,
                   circle_pattern_dist = circle_pattern_dist',
                   height = height',
                   width = width',
                   circle_pattern = cp,
                   target_distance = target_distance',
                   camera_matrix = None,
                   distortion_coefs = None,
                   counter = 0\<rparr>
                  camera_mode)\<lparr>counter := 0\<rparr>))"

subsection \<open>The per-frame pose computation of the class\<close>

type_synonym pose = "point3 \<times> real"

text \<open>
  \<^verbatim>\<open>PoseEstimator.get_pose\<close>. The result has three parts: what the call returns or
  raises, the estimator after the call, and the OpenCV calls made. The solver's first
  result (its success flag) is bound to \<^verbatim>\<open>_\<close> and never read.
  \<^verbatim>\<open>rotation_vector[1][0]\<close> is the second component of the rotation vector,
  \<^verbatim>\<open>translation_vector[0][0]\<close> and \<^verbatim>\<open>translation_vector[2][0]\<close> the first and third of the
  translation vector. Slicing \<^verbatim>\<open>centers\<close> raises \<^verbatim>\<open>TypeError\<close> when it is \<open>None\<close>.
\<close>

definition PoseEstimator_get_pose ::
  "'img grid_finder \<Rightarrow> pnp_solver \<Rightarrow> PoseEstimator \<Rightarrow> 'img \<Rightarrow>
     (py_error + bool \<times> pose option) \<times> PoseEstimator \<times> ext_call list" where
  "PoseEstimator_get_pose findCirclesGrid solvePnP self obs =
     (case findCirclesGrid obs (width self, height self) (detector self) of
        (detection, centers) \<Rightarrow>
          if detection then
            (case centers of
               None \<Rightarrow> (Inl TypeError, self, [FindCirclesGrid])
             | Some image_points \<Rightarrow>
                 (case solvePnP (circle_pattern self) image_points
                         (camera_matrix self) (distortion_coefs self) of
                    Inl e \<Rightarrow> (Inl e, self, [FindCirclesGrid, SolvePnP])
                  | Inr (_, rotation_vector, translation_vector) \<Rightarrow>
                      (let theta = fst (snd rotation_vector);
                           x_bumper = fst translation_vector;
                           y_bumper = snd (snd translation_vector);
                           y_target = y_bumper - target_distance self * cos theta;
                           x_target = x_bumper + target_distance self * sin theta
                       in (Inr (detection, Some ((y_target, 0, x_target), - rad2deg theta)),
                           self, [FindCirclesGrid, SolvePnP]))))
          else (Inr (detection, None), self, [FindCirclesGrid]))"

subsection \<open>The free function of the control script\<close>

text \<open>The module-level blob detector of \<^verbatim>\<open>visual_servo_control.py\<close>.\<close>

definition module_detector :: blob_params where
  "module_detector = \<lparr>minArea = 5, minDistBetweenBlobs = 1\<rparr>"

text \<open>
  The second component of what the free \<^verbatim>\<open>get_pose\<close> returns: the list
  \<^verbatim>\<open>[np.array([y, 0, x]), theta]\<close>, or the empty array \<^verbatim>\<open>np.array([])\<close>.
\<close>

datatype payload = PoseList point3 real | EmptyArray

text \<open>
  The body shared, word for word, by the four branches \<^verbatim>\<open>option == 0\<close> to
  \<^verbatim>\<open>option == 3\<close>; they differ in the matrix and the coefficients handed to the solver.
\<close>

definition get_pose_branch ::
  "pnp_solver \<Rightarrow> bool \<Rightarrow> point2 list option \<Rightarrow> array \<Rightarrow> array \<Rightarrow> py_error + bool \<times> payload" where
  "get_pose_branch solvePnP detection centers cameraMatrix distCoeffs =
     (case calc_circle_pattern 3 8 of
        Inl e \<Rightarrow> Inl e
      | Inr object_points \<Rightarrow>
          (case centers of
             None \<Rightarrow> Inl TypeError
           | Some image_points \<Rightarrow>
               (case solvePnP object_points image_points (Some cameraMatrix) (Some distCoeffs) of
                  Inl e \<Rightarrow> Inl e
                | Inr (success, rotation_vector, translation_vector) \<Rightarrow>
                    (let x = snd (snd translation_vector);
                         y = fst translation_vector;
                         theta = rad2deg (fst (snd rotation_vector))
                     in Inr (detection, PoseList (y, 0, x) theta)))))"

text \<open>The free function \<^verbatim>\<open>get_pose(obs, option)\<close>.\<close>

definition get_pose ::
  "rectifier \<Rightarrow> 'img grid_finder \<Rightarrow> pnp_solver \<Rightarrow> 'img \<Rightarrow> int \<Rightarrow> py_error + bool \<times> payload" where
  "get_pose g findCirclesGrid solvePnP obs option =
     (case findCirclesGrid obs (8, 3) module_detector of
        (detection, centers) \<Rightarrow>
          if detection \<and> option = 0 then
            get_pose_branch solvePnP detection centers (new_camera_matrix g) (Array1 [0, 0, 0, 0, 0])
          else if detection \<and> option = 1 then
            get_pose_branch solvePnP detection centers (new_camera_matrix g) local_distortion_coefs
          else if detection \<and> option = 2 then
            get_pose_branch solvePnP detection centers local_camera_matrix (Array1 [0, 0, 0, 0, 0])
          else if detection \<and> option = 3 then
            get_pose_branch solvePnP detection centers local_camera_matrix local_distortion_coefs
          else Inr (detection, EmptyArray))"

text \<open>Reading a payload as the class's optional pose, to compare the two functions.\<close>

definition payload_pose :: "payload \<Rightarrow> pose option" where
  "payload_pose p = (case p of PoseList v t \<Rightarrow> Some (v, t) | EmptyArray \<Rightarrow> None)"

subsection \<open>Notions used to state the properties\<close>

text \<open>The point the pattern places at column \<open>i\<close> and row \<open>j\<close>.\<close>

definition grid_point :: "real \<Rightarrow> int \<Rightarrow> int \<Rightarrow> int \<Rightarrow> int \<Rightarrow> point3" where
  "grid_point d h w i j =
     (d * real_of_int i - d * real_of_int (w - 1) / 2,
      d * real_of_int j - d * real_of_int (h - 1) / 2, 0)"

text \<open>
  The result of the free function read as a result of the class: the same flag, the
  payload as an optional pose.
\<close>

definition free_as_class :: "py_error + bool \<times> payload \<Rightarrow> py_error + bool \<times> pose option" where
  "free_as_class r = (case r of Inl e \<Rightarrow> Inl e | Inr (found, p) \<Rightarrow> Inr (found, payload_pose p))"

text \<open>
  What the free \<^verbatim>\<open>get_pose\<close> hands to the solver as \<^verbatim>\<open>cameraMatrix\<close> and as
  \<^verbatim>\<open>distCoeffs\<close> in its branches \<^verbatim>\<open>option == 0\<close> to \<^verbatim>\<open>option == 3\<close>.
\<close>

definition free_cameraMatrix :: "rectifier \<Rightarrow> int \<Rightarrow> array" where
  "free_cameraMatrix g option =
     (if option = 0 \<or> option = 1 then new_camera_matrix g else local_camera_matrix)"

definition free_distCoeffs :: "int \<Rightarrow> array" where
  "free_distCoeffs option =
     (if option = 0 \<or> option = 2 then Array1 [0, 0, 0, 0, 0] else local_distortion_coefs)"

text \<open>Stand-ins for the OpenCV entry points, used to run the model on concrete inputs.\<close>

definition sample_finder :: "unit grid_finder" where
  "sample_finder obs patternSize blobDetector = (True, Some [])"

definition lost_finder :: "unit grid_finder" where
  "lost_finder obs patternSize blobDetector = (False, None)"

definition sample_solver :: "bool \<Rightarrow> pnp_solver" where
  "sample_solver ok objectPoints imagePoints cameraMatrix distCoeffs = Inr (ok, (0, 0, 0), (0, 0, 5))"

text \<open>A solver that rejects a missing matrix or missing coefficients.\<close>

definition strict_solver :: pnp_solver where
  "strict_solver objectPoints imagePoints cameraMatrix distCoeffs =
     (if cameraMatrix = None \<or> distCoeffs = None then Inl CvError
      else Inr (True, (0, 1, 0), (2, 0, 5)))"

definition sample_rectifier :: rectifier where
  "sample_rectifier cameraMatrix distCoeffs imageSize alpha =
     (Array2 [[200, 0, 320], [0, 200, 240], [0, 0, 1]], (0, 0, fst imageSize, snd imageSize))"

definition sample_estimator :: PoseEstimator where
  "sample_estimator =
     \<lparr>detector = \<lparr>minArea = 5, minDistBetweenBlobs = 1\<rparr>,
      circle_pattern_dist = 0.0125,
      height = 3,
      width = 8,
      circle_pattern = [],
      target_distance = 1,
      camera_matrix = Some local_camera_matrix,
      distortion_coefs = Some local_distortion_coefs,
      counter = 0\<rparr>"

section \<open>Properties\<close>

subsection \<open>The two loops of the pattern generation\<close>

lemma setitem_x:
  assumes "0 \<le> k" "k < int (length a)"
  shows "setitem a k 0 v = Inr (a[nat k := (v, fst (snd (a ! nat k)), snd (snd (a ! nat k)))])"
  using assms by (simp add: setitem_def set_col_def Let_def split: prod.splits)

lemma setitem_y:
  assumes "0 \<le> k" "k < int (length a)"
  shows "setitem a k 1 v = Inr (a[nat k := (fst (a ! nat k), v, snd (snd (a ! nat k)))])"
  using assms by (simp add: setitem_def set_col_def Let_def split: prod.splits)

lemma loop_j_step:
  assumes "0 \<le> i + j * w" "i + j * w < int (length cp)"
  shows "pattern_loop_j d h w i (j # js) cp =
     pattern_loop_j d h w i js
       (cp[nat (i + j * w) := (d * real_of_int i - d * real_of_int (w - 1) / 2,
                               d * real_of_int j - d * real_of_int (h - 1) / 2,
                               snd (snd (cp ! nat (i + j * w))))])"
  using assms by (simp add: setitem_x setitem_y)

lemma loop_j_result:
  assumes "0 \<le> i" "i < w" "\<forall>j\<in>set js. 0 \<le> j \<and> i + j * w < int (length cp)"
  shows "\<exists>cp'. pattern_loop_j d h w i js cp = Inr cp' \<and> length cp' = length cp \<and>
     (\<forall>k<length cp. cp' ! k =
        (if int k mod w = i \<and> int k div w \<in> set js
         then (d * real_of_int i - d * real_of_int (w - 1) / 2,
               d * real_of_int (int k div w) - d * real_of_int (h - 1) / 2,
               snd (snd (cp ! k)))
         else cp ! k))"
  using assms
proof (induction js arbitrary: cp)
  case Nil
  then show ?case by simp
next
  case (Cons j js)
  let ?k0 = "nat (i + j * w)"
  let ?cp2 = "cp[?k0 := (d * real_of_int i - d * real_of_int (w - 1) / 2,
                               d * real_of_int j - d * real_of_int (h - 1) / 2,
                               snd (snd (cp ! ?k0)))]"
  from Cons.prems have j0: "0 \<le> j" and jl: "i + j * w < int (length cp)" by auto
  have nn: "0 \<le> i + j * w" using j0 Cons.prems(1,2) by (simp add: )
  have step: "pattern_loop_j d h w i (j # js) cp = pattern_loop_j d h w i js ?cp2"
    using loop_j_step[OF nn jl] .
  have pre: "\<forall>j\<in>set js. 0 \<le> j \<and> i + j * w < int (length ?cp2)"
    using Cons.prems(3) by simp
  from Cons.IH[OF Cons.prems(1,2) pre] obtain cp' where
    r: "pattern_loop_j d h w i js ?cp2 = Inr cp'" and l: "length cp' = length ?cp2"
    and v: "\<forall>k<length ?cp2. cp' ! k =
        (if int k mod w = i \<and> int k div w \<in> set js
         then (d * real_of_int i - d * real_of_int (w - 1) / 2,
               d * real_of_int (int k div w) - d * real_of_int (h - 1) / 2,
               snd (snd (?cp2 ! k)))
         else ?cp2 ! k)" by blast
  have k0l: "?k0 < length cp" using jl nn by linarith
  have k0m: "int ?k0 mod w = i" using nn Cons.prems(1,2) by simp
  have k0d: "int ?k0 div w = j" using nn Cons.prems(1,2) by simp
  have char: "\<And>k. int k mod w = i \<Longrightarrow> int k div w = j \<Longrightarrow> k = ?k0"
  proof -
    fix k assume a: "int k mod w = i" "int k div w = j"
    have "int k = int k div w * w + int k mod w" by simp
    then have "int k = i + j * w" using a by simp
    then show "k = ?k0" by simp
  qed
  have "\<forall>k<length cp. cp' ! k =
        (if int k mod w = i \<and> int k div w \<in> set (j # js)
         then (d * real_of_int i - d * real_of_int (w - 1) / 2,
               d * real_of_int (int k div w) - d * real_of_int (h - 1) / 2,
               snd (snd (cp ! k)))
         else cp ! k)"
  proof (intro allI impI)
    fix k assume kl: "k < length cp"
    show "cp' ! k =
        (if int k mod w = i \<and> int k div w \<in> set (j # js)
         then (d * real_of_int i - d * real_of_int (w - 1) / 2,
               d * real_of_int (int k div w) - d * real_of_int (h - 1) / 2,
               snd (snd (cp ! k)))
         else cp ! k)"
    proof (cases "k = ?k0")
      case True
      then show ?thesis using v kl k0m k0d k0l by (auto simp del: nat_int)
    next
      case False
      then have "\<not> (int k mod w = i \<and> int k div w = j)" using char by blast
      then show ?thesis using v kl False by auto
    qed
  qed
  then show ?case using step r l by simp
qed

lemma set_py_range: "set (py_range n) = {0..<n}"
  by (cases "0 \<le> n") (simp_all add: py_range_def image_int_atLeastLessThan)

lemma int_div_less_bound:
  assumes "(k::int) < h * w" "0 < w"
  shows "k div w < h"
proof (rule ccontr)
  assume "\<not> k div w < h"
  then have "h \<le> k div w" by simp
  then have a: "h * w \<le> k div w * w" using assms(2) by (simp add: mult_right_mono)
  have b: "k div w * w + k mod w = k" by simp
  have c: "0 \<le> k mod w" using assms(2) by simp
  show False using a b c assms(1) by linarith
qed

lemma loop_j_full:
  assumes "0 \<le> i" "i < w" "0 \<le> h" "length cp = nat (h * w)"
  shows "\<exists>cp'. pattern_loop_j d h w i (py_range h) cp = Inr cp' \<and> length cp' = length cp \<and>
     (\<forall>k<length cp. cp' ! k =
        (if int k mod w = i
         then (d * real_of_int i - d * real_of_int (w - 1) / 2,
               d * real_of_int (int k div w) - d * real_of_int (h - 1) / 2,
               snd (snd (cp ! k)))
         else cp ! k))"
proof -
  have w0: "0 < w" using assms by linarith
  have hw: "0 \<le> h * w" using assms w0 by simp
  have pre: "\<forall>j\<in>set (py_range h). 0 \<le> j \<and> i + j * w < int (length cp)"
  proof
    fix j assume "j \<in> set (py_range h)"
    then have j: "0 \<le> j" "j < h" by (auto simp: set_py_range)
    then have "j + 1 \<le> h" by simp
    then have "(j + 1) * w \<le> h * w" using w0 by (simp add: mult_right_mono)
    then have "i + j * w < h * w" using assms(2) by (simp add: algebra_simps)
    then show "0 \<le> j \<and> i + j * w < int (length cp)" using j assms(4) hw by simp
  qed
  have inr: "\<And>k. k < length cp \<Longrightarrow> int k div w \<in> set (py_range h)"
  proof -
    fix k assume "k < length cp"
    then have "int k < h * w" using assms(4) hw by linarith
    then have "int k div w < h" using w0 by (rule int_div_less_bound)
    moreover have "0 \<le> int k div w" using w0 by (simp add: pos_imp_zdiv_nonneg_iff)
    ultimately show "int k div w \<in> set (py_range h)" by (simp add: set_py_range)
  qed
  from loop_j_result[OF assms(1,2) pre, of d h] obtain cp' where
    r: "pattern_loop_j d h w i (py_range h) cp = Inr cp'" and l: "length cp' = length cp"
    and v: "\<forall>k<length cp. cp' ! k =
        (if int k mod w = i \<and> int k div w \<in> set (py_range h)
         then (d * real_of_int i - d * real_of_int (w - 1) / 2,
               d * real_of_int (int k div w) - d * real_of_int (h - 1) / 2,
               snd (snd (cp ! k)))
         else cp ! k)" by blast
  show ?thesis using r l v inr by auto
qed

lemma loop_i_result:
  assumes "0 \<le> h" "length cp = nat (h * w)" "\<forall>i\<in>set is. 0 \<le> i \<and> i < w"
  shows "\<exists>cp'. pattern_loop_i d h w is cp = Inr cp' \<and> length cp' = length cp \<and>
     (\<forall>k<length cp. cp' ! k =
        (if int k mod w \<in> set is
         then (d * real_of_int (int k mod w) - d * real_of_int (w - 1) / 2,
               d * real_of_int (int k div w) - d * real_of_int (h - 1) / 2,
               snd (snd (cp ! k)))
         else cp ! k))"
  using assms
proof (induction "is" arbitrary: cp)
  case Nil
  then show ?case by simp
next
  case (Cons i "is")
  from Cons.prems have i: "0 \<le> i" "i < w" by auto
  from loop_j_full[OF i Cons.prems(1,2), of d] obtain cp1 where
    r1: "pattern_loop_j d h w i (py_range h) cp = Inr cp1" and l1: "length cp1 = length cp"
    and v1: "\<forall>k<length cp. cp1 ! k =
        (if int k mod w = i
         then (d * real_of_int i - d * real_of_int (w - 1) / 2,
               d * real_of_int (int k div w) - d * real_of_int (h - 1) / 2,
               snd (snd (cp ! k)))
         else cp ! k)" by blast
  have pre2: "length cp1 = nat (h * w)" using l1 Cons.prems(2) by simp
  have pre3: "\<forall>i\<in>set is. 0 \<le> i \<and> i < w" using Cons.prems(3) by simp
  from Cons.IH[OF Cons.prems(1) pre2 pre3] obtain cp' where
    r: "pattern_loop_i d h w is cp1 = Inr cp'" and l: "length cp' = length cp1"
    and v: "\<forall>k<length cp1. cp' ! k =
        (if int k mod w \<in> set is
         then (d * real_of_int (int k mod w) - d * real_of_int (w - 1) / 2,
               d * real_of_int (int k div w) - d * real_of_int (h - 1) / 2,
               snd (snd (cp1 ! k)))
         else cp1 ! k)" by blast
  have "pattern_loop_i d h w (i # is) cp = Inr cp'" using r1 r by simp
  moreover have "length cp' = length cp" using l l1 by simp
  moreover have "\<forall>k<length cp. cp' ! k =
        (if int k mod w \<in> set (i # is)
         then (d * real_of_int (int k mod w) - d * real_of_int (w - 1) / 2,
               d * real_of_int (int k div w) - d * real_of_int (h - 1) / 2,
               snd (snd (cp ! k)))
         else cp ! k)"
    using v v1 l1 by auto
  ultimately show ?case by blast
qed

lemma calc_pattern_pos:
  assumes "0 \<le> h" "0 < w"
  shows "PoseEstimator_calc_circle_pattern d h w =
     Inr (map (\<lambda>k. grid_point d h w (int k mod w) (int k div w)) [0..<nat (h * w)])"
proof -
  let ?z = "replicate (nat (h * w)) (0::real, 0::real, 0::real)"
  have hw: "0 \<le> h * w" using assms by simp
  have z: "np_zeros3 (h * w) = Inr ?z" using hw by (simp add: np_zeros3_def)
  have pre: "\<forall>i\<in>set (py_range w). 0 \<le> i \<and> i < w" by (simp add: set_py_range)
  from loop_i_result[OF assms(1) _ pre, of ?z d] obtain cp' where
    r: "pattern_loop_i d h w (py_range w) ?z = Inr cp'" and l: "length cp' = length ?z"
    and v: "\<forall>k<length ?z. cp' ! k =
        (if int k mod w \<in> set (py_range w)
         then (d * real_of_int (int k mod w) - d * real_of_int (w - 1) / 2,
               d * real_of_int (int k div w) - d * real_of_int (h - 1) / 2,
               snd (snd (?z ! k)))
         else ?z ! k)" by auto
  have m: "\<And>k. int k mod w \<in> set (py_range w)" using assms(2) by (simp add: set_py_range)
  have "cp' = map (\<lambda>k. grid_point d h w (int k mod w) (int k div w)) [0..<nat (h * w)]"
    using l v m by (intro nth_equalityI) (simp_all add: grid_point_def)
  then show ?thesis using z r by (simp add: PoseEstimator_calc_circle_pattern_def)
qed

lemma calc_pattern_nonpos:
  assumes "0 \<le> h * w" "w \<le> 0"
  shows "PoseEstimator_calc_circle_pattern d h w = Inr (replicate (nat (h * w)) (0, 0, 0))"
  using assms by (simp add: PoseEstimator_calc_circle_pattern_def np_zeros3_def py_range_def)

lemma calc_pattern_neg:
  assumes "h * w < 0"
  shows "PoseEstimator_calc_circle_pattern d h w = Inl ValueError"
  using assms by (simp add: PoseEstimator_calc_circle_pattern_def np_zeros3_def)

lemma calc_pattern_total:
  assumes "0 \<le> h * w"
  shows "\<exists>ps. PoseEstimator_calc_circle_pattern d h w = Inr ps \<and> length ps = nat (h * w)"
proof (cases "0 < w")
  case True
  then have "0 \<le> h" using assms by (simp add: zero_le_mult_iff)
  from calc_pattern_pos[OF this True, of d] show ?thesis by simp
next
  case False
  then show ?thesis using calc_pattern_nonpos[OF assms, of d] by simp
qed

lemma free_pattern_eq: "calc_circle_pattern h w = PoseEstimator_calc_circle_pattern 0.0125 h w"
  by (simp only: calc_circle_pattern_def PoseEstimator_calc_circle_pattern_def)

lemma free_pattern_3_8: "\<exists>ps. calc_circle_pattern 3 8 = Inr ps"
proof -
  have "(0::int) \<le> 3 * 8" by simp
  from calc_pattern_total[OF this, where d = "0.0125"] obtain ps where
    "PoseEstimator_calc_circle_pattern 0.0125 3 8 = Inr ps" by blast
  then have "calc_circle_pattern 3 8 = Inr ps" by (simp only: free_pattern_eq)
  then show ?thesis by blast
qed

lemma calc_pattern_nat:
  "0 < W \<Longrightarrow> PoseEstimator_calc_circle_pattern d (int H) (int W) =
     Inr (map (\<lambda>k. (d * real (k mod W) - d * (real W - 1) / 2,
                     d * real (k div W) - d * (real H - 1) / 2, 0)) [0..<H * W])"
proof -
  assume w: "0 < W"
  have a: "nat (int H * int W) = H * W" by (simp add: nat_mult_distrib)
  have "PoseEstimator_calc_circle_pattern d (int H) (int W) =
     Inr (map (\<lambda>k. grid_point d (int H) (int W) (int k mod int W) (int k div int W))
            [0..<nat (int H * int W)])"
    using calc_pattern_pos[of "int H" "int W" d] w by simp
  then show ?thesis
    by (simp add: a grid_point_def zmod_int[symmetric] zdiv_int[symmetric] del: of_nat_mult)
qed

subsection \<open>Unfolding the pose computations\<close>

lemma get_pose_found:
  assumes "findCirclesGrid obs (width self, height self) (detector self) = (True, Some image_points)"
    and "solvePnP (circle_pattern self) image_points (camera_matrix self) (distortion_coefs self) =
           Inr (ok, (r0, theta, r2), (x_bumper, t1, y_bumper))"
  shows "PoseEstimator_get_pose findCirclesGrid solvePnP self obs =
           (Inr (True, Some ((y_bumper - target_distance self * cos theta, 0,
                              x_bumper + target_distance self * sin theta),
                             - rad2deg theta)),
            self, [FindCirclesGrid, SolvePnP])"
  using assms by (simp add: PoseEstimator_get_pose_def)

lemma get_pose_lost:
  assumes "fst (findCirclesGrid obs (width self, height self) (detector self)) = False"
  shows "PoseEstimator_get_pose findCirclesGrid solvePnP self obs =
           (Inr (False, None), self, [FindCirclesGrid])"
  using assms by (auto simp: PoseEstimator_get_pose_def split: prod.splits)

lemma init_unset:
  assumes "camera_mode \<notin> {0, 1, 2, 3, 4}"
    and "PoseEstimator_calc_circle_pattern d h w = Inr cp"
  shows "PoseEstimator_init g a b h w d t camera_mode =
     Inr \<lparr>detector = \<lparr>minArea = a, minDistBetweenBlobs = b\<rparr>,
          circle_pattern_dist = d, height = h, width = w, circle_pattern = cp,
          target_distance = t, camera_matrix = None, distortion_coefs = None, counter = 0\<rparr>"
  using assms by (simp add: PoseEstimator_init_def initialize_camera_matrix_def)

lemma initialize_camera_matrix_modes:
  "camera_matrix (initialize_camera_matrix g self 0) = Some (new_camera_matrix g)"
  "camera_matrix (initialize_camera_matrix g self 1) = Some (new_camera_matrix g)"
  "camera_matrix (initialize_camera_matrix g self 2) = Some local_camera_matrix"
  "camera_matrix (initialize_camera_matrix g self 3) = Some local_camera_matrix"
  "distortion_coefs (initialize_camera_matrix g self 0) = Some (Array2 [[0, 0, 0, 0, 0]])"
  "distortion_coefs (initialize_camera_matrix g self 1) = Some local_distortion_coefs"
  "distortion_coefs (initialize_camera_matrix g self 2) = Some (Array2 [[0, 0, 0, 0, 0]])"
  "distortion_coefs (initialize_camera_matrix g self 3) = Some local_distortion_coefs"
  by (simp_all add: initialize_camera_matrix_def)

lemma get_pose_branch_found:
  assumes "solvePnP ps image_points (Some K) (Some dc) = Inr (ok, rv, tv)"
    and "calc_circle_pattern 3 8 = Inr ps"
  shows "get_pose_branch solvePnP True (Some image_points) K dc =
           Inr (True, PoseList (fst tv, 0, snd (snd tv)) (rad2deg (fst (snd rv))))"
  using assms by (simp add: get_pose_branch_def)

section \<open>The claims\<close>

text \<open>
  Claim C1. For every solved pose (the grid is detected and the solver returns a rotation
  vector with second component \<open>theta\<close> and a translation vector with first component
  \<open>x_bumper\<close> and third component \<open>y_bumper\<close>), \<^verbatim>\<open>PoseEstimator.get_pose\<close> returns the
  position \<open>(y_bumper - D * cos theta, 0, x_bumper + D * sin theta)\<close>, where \<open>D\<close> is the
  configured target distance, and the heading \<open>- rad2deg theta\<close>. For \<open>theta = 0\<close>,
  \<open>D = 1\<close>, \<open>x_bumper = 0\<close> and \<open>y_bumper = 5\<close> that is the position \<open>(4, 0, 0)\<close> and the
  heading \<open>0\<close>.
\<close>

theorem get_pose_target:
  assumes "findCirclesGrid obs (width self, height self) (detector self) = (True, Some image_points)"
    and "solvePnP (circle_pattern self) image_points (camera_matrix self) (distortion_coefs self) =
           Inr (ok, (r0, theta, r2), (x_bumper, t1, y_bumper))"
  shows "fst (PoseEstimator_get_pose findCirclesGrid solvePnP self obs) =
           Inr (True, Some ((y_bumper - target_distance self * cos theta, 0,
                              x_bumper + target_distance self * sin theta),
                             - rad2deg theta)) \<and>
         (theta = 0 \<and> target_distance self = 1 \<and> x_bumper = 0 \<and> y_bumper = 5 \<longrightarrow>
            fst (PoseEstimator_get_pose findCirclesGrid solvePnP self obs) =
              Inr (True, Some ((4, 0, 0), 0)))"
  using get_pose_found[where findCirclesGrid = findCirclesGrid and solvePnP = solvePnP
      and self = self and obs = obs, OF assms]
  by (simp add: rad2deg_def)

theorem get_pose_target_witness:
  "fst (PoseEstimator_get_pose sample_finder (sample_solver True) sample_estimator ()) =
     Inr (True, Some ((4, 0, 0), 0))"
proof -
  have a: "sample_finder () (width sample_estimator, height sample_estimator)
             (detector sample_estimator) = (True, Some [])"
    by (simp add: sample_finder_def)
  have b: "sample_solver True (circle_pattern sample_estimator) []
             (camera_matrix sample_estimator) (distortion_coefs sample_estimator) =
           Inr (True, (0, 0, 0), (0, 0, 5))"
    by (simp add: sample_solver_def)
  have c: "target_distance sample_estimator = 1" by (simp add: sample_estimator_def)
  show ?thesis
    using get_pose_target[where findCirclesGrid = sample_finder and solvePnP = "sample_solver True"
        and self = sample_estimator and obs = "()", OF a b] c
    by (simp add: rad2deg_def)
qed

text \<open>
  Claim C2. For every number of rows, number of columns and spacing, pattern generation
  returns exactly \<open>rows * cols\<close> points, and the point at flat index \<open>i + j * cols\<close>, for
  a column index \<open>i\<close> in \<open>[0, cols)\<close> and a row index \<open>j\<close> in \<open>[0, rows)\<close>, has
  \<open>x = spacing * i - spacing * (cols - 1) / 2\<close>,
  \<open>y = spacing * j - spacing * (rows - 1) / 2\<close> and \<open>z = 0\<close>.
\<close>

theorem pattern_points:
  fixes rows cols :: nat
  shows "\<exists>ps. PoseEstimator_calc_circle_pattern spacing (int rows) (int cols) = Inr ps \<and>
           length ps = rows * cols \<and>
           (\<forall>i j. i < cols \<and> j < rows \<longrightarrow>
              ps ! (i + j * cols) =
                (spacing * real i - spacing * real_of_int (int cols - 1) / 2,
                 spacing * real j - spacing * real_of_int (int rows - 1) / 2,
                 0))"
proof (cases "0 < cols")
  case True
  let ?ps = "map (\<lambda>k. (spacing * real (k mod cols) - spacing * (real cols - 1) / 2,
                         spacing * real (k div cols) - spacing * (real rows - 1) / 2, 0::real))
               [0..<rows * cols]"
  have e: "PoseEstimator_calc_circle_pattern spacing (int rows) (int cols) = Inr ?ps"
    using calc_pattern_nat[OF True, where d = spacing and H = rows] .
  have "\<And>i j. i < cols \<and> j < rows \<Longrightarrow>
          ?ps ! (i + j * cols) =
            (spacing * real i - spacing * (real cols - 1) / 2,
             spacing * real j - spacing * (real rows - 1) / 2, 0)"
  proof -
    fix i j assume a: "i < cols \<and> j < rows"
    then have "Suc j \<le> rows" by simp
    then have "Suc j * cols \<le> rows * cols" by (rule mult_le_mono1)
    then have lt: "i + j * cols < rows * cols" using a by simp
    show "?ps ! (i + j * cols) =
            (spacing * real i - spacing * (real cols - 1) / 2,
             spacing * real j - spacing * (real rows - 1) / 2, 0)"
      using lt a by simp
  qed
  then show ?thesis using e by simp
next
  case False
  then have "PoseEstimator_calc_circle_pattern spacing (int rows) (int cols) = Inr []"
    using calc_pattern_nonpos[where h = "int rows" and w = "int cols" and d = spacing] by simp
  then show ?thesis using False by simp
qed

theorem pattern_points_witness:
  "\<exists>ps. PoseEstimator_calc_circle_pattern 0.0125 3 8 = Inr ps \<and> length ps = 24 \<and>
     ps ! 10 = (0.0125 * 2 - 0.0125 * 7 / 2, 0.0125 * 1 - 0.0125 * 2 / 2, 0)"
proof -
  from pattern_points[where rows = 3 and cols = 8 and spacing = "0.0125"] obtain ps where
    p: "PoseEstimator_calc_circle_pattern 0.0125 (int 3) (int 8) = Inr ps" "length ps = 3 * 8"
    and v: "\<forall>i j. i < 8 \<and> j < 3 \<longrightarrow>
              ps ! (i + j * 8) =
                (0.0125 * real i - 0.0125 * real_of_int (int 8 - 1) / 2,
                 0.0125 * real j - 0.0125 * real_of_int (int 3 - 1) / 2,
                 0)" by blast
  from v[rule_format, of 2 1] have "ps ! 10 = (0.0125 * 2 - 0.0125 * 7 / 2, 0.0125 * 1 - 0.0125 * 2 / 2, 0)"
    by simp
  then show ?thesis using p by simp
qed

text \<open>
  Claim C3, amended. For every profile id outside \<open>{0, 1, 2, 3, 4}\<close> (and pattern
  dimensions for which the pattern can be built), constructing the estimator raises
  nothing: it returns an estimator whose intrinsic matrix and distortion coefficients are
  both left unset (\<open>None\<close>).
\<close>

theorem init_invalid_mode:
  assumes "camera_mode \<notin> {0, 1, 2, 3, 4}" and "0 \<le> height' * width'"
  shows "\<exists>self. PoseEstimator_init g min_area min_dist height' width' spacing target camera_mode =
                  Inr self \<and>
                camera_matrix self = None \<and> distortion_coefs self = None"
proof -
  from calc_pattern_total[OF assms(2), of spacing] obtain cp where
    "PoseEstimator_calc_circle_pattern spacing height' width' = Inr cp" by blast
  from init_unset[OF assms(1) this] show ?thesis by simp
qed

theorem init_invalid_mode_witness:
  "(7::int) \<notin> {0, 1, 2, 3, 4} \<and> (0::int) \<le> 3 * 8 \<and>
   (\<exists>self. PoseEstimator_init sample_rectifier 5 1 3 8 0.0125 0.15 7 = Inr self \<and>
           camera_matrix self = None \<and> distortion_coefs self = None)"
  using init_invalid_mode[where camera_mode = 7 and height' = 3 and width' = 8
      and g = sample_rectifier and min_area = 5 and min_dist = 1 and spacing = "0.0125"
      and target = "0.15"]
  by simp

text \<open>
  The claim as stated fails at profile id 7: construction returns an estimator (here for
  a pattern of one row and one column) and raises no error.
\<close>

theorem init_invalid_mode_counterexample:
  "PoseEstimator_init sample_rectifier 5 1 1 1 0.0125 0.15 7 =
     Inr \<lparr>detector = \<lparr>minArea = 5, minDistBetweenBlobs = 1\<rparr>,
          circle_pattern_dist = 0.0125, height = 1, width = 1,
          circle_pattern = [(0, 0, 0)],
          target_distance = 0.15, camera_matrix = None, distortion_coefs = None,
          counter = 0\<rparr>"
proof -
  have c: "PoseEstimator_calc_circle_pattern 0.0125 1 1 = Inr [(0, 0, 0)]"
    using calc_pattern_pos[where h = 1 and w = 1 and d = "0.0125"]
    by (simp add: grid_point_def)
  have m: "(7::int) \<notin> {0, 1, 2, 3, 4}" by simp
  show ?thesis using init_unset[OF m c, of sample_rectifier 5 1 "0.15"] by simp
qed

text \<open>
  Claim C4, amended. For every call where the grid is detected and the solver returns,
  whatever its success flag, \<^verbatim>\<open>PoseEstimator.get_pose\<close> returns found = true with the pose
  computed from the solver's rotation and translation vectors: the flag is never read, and
  a failed solve is not reported as the not-found result.
\<close>

theorem get_pose_ignores_success:
  assumes "findCirclesGrid obs (width self, height self) (detector self) = (True, Some image_points)"
    and "solvePnP (circle_pattern self) image_points (camera_matrix self) (distortion_coefs self) =
           Inr (success, rotation_vector, translation_vector)"
  shows "fst (PoseEstimator_get_pose findCirclesGrid solvePnP self obs) =
           Inr (True,
                Some ((snd (snd translation_vector) -
                         target_distance self * cos (fst (snd rotation_vector)),
                       0,
                       fst translation_vector +
                         target_distance self * sin (fst (snd rotation_vector))),
                      - rad2deg (fst (snd rotation_vector)))) \<and>
         fst (PoseEstimator_get_pose findCirclesGrid solvePnP self obs) \<noteq> Inr (False, None)"
  using assms by (simp add: PoseEstimator_get_pose_def Let_def)

theorem get_pose_ignores_success_witness:
  "fst (PoseEstimator_get_pose sample_finder (sample_solver False) sample_estimator ()) =
     Inr (True, Some ((5 - 1 * cos 0, 0, 0 + 1 * sin 0), - rad2deg 0)) \<and>
   fst (PoseEstimator_get_pose sample_finder (sample_solver False) sample_estimator ()) \<noteq>
     Inr (False, None)"
proof -
  have a: "sample_finder () (width sample_estimator, height sample_estimator)
             (detector sample_estimator) = (True, Some [])"
    by (simp add: sample_finder_def)
  have b: "sample_solver False (circle_pattern sample_estimator) []
             (camera_matrix sample_estimator) (distortion_coefs sample_estimator) =
           Inr (False, (0, 0, 0), (0, 0, 5))"
    by (simp add: sample_solver_def)
  have c: "target_distance sample_estimator = 1" by (simp add: sample_estimator_def)
  show ?thesis
    using get_pose_ignores_success[where findCirclesGrid = sample_finder
        and solvePnP = "sample_solver False" and self = sample_estimator and obs = "()", OF a b] c
    by simp
qed

text \<open>
  The claim as stated fails for a solver whose success flag is false: the result is a
  found pose, not the result of a frame without the pattern.
\<close>

theorem get_pose_ignores_success_counterexample:
  "fst (PoseEstimator_get_pose sample_finder (sample_solver False) sample_estimator ()) =
     Inr (True, Some ((4, 0, 0), 0)) \<and>
   fst (PoseEstimator_get_pose lost_finder (sample_solver False) sample_estimator ()) =
     Inr (False, None)"
  by (simp add: PoseEstimator_get_pose_def sample_finder_def lost_finder_def sample_solver_def
      sample_estimator_def rad2deg_def)

text \<open>
  Claim C5. For every image in which the grid detector reports no detection,
  \<^verbatim>\<open>PoseEstimator.get_pose\<close> returns the not-found result (found = false, no pose)
  without raising; the solver is not among the calls made, and the whole outcome is the
  same for any solver.
\<close>

theorem get_pose_not_found:
  assumes "fst (findCirclesGrid obs (width self, height self) (detector self)) = False"
  shows "fst (PoseEstimator_get_pose findCirclesGrid solvePnP self obs) = Inr (False, None) \<and>
         SolvePnP \<notin> set (snd (snd (PoseEstimator_get_pose findCirclesGrid solvePnP self obs))) \<and>
         PoseEstimator_get_pose findCirclesGrid solvePnP self obs =
           PoseEstimator_get_pose findCirclesGrid solvePnP' self obs"
  using get_pose_lost[where findCirclesGrid = findCirclesGrid and self = self and obs = obs,
      OF assms]
  by simp

theorem get_pose_not_found_witness:
  "fst (PoseEstimator_get_pose lost_finder (sample_solver True) sample_estimator ()) =
     Inr (False, None) \<and>
   SolvePnP \<notin> set (snd (snd (PoseEstimator_get_pose lost_finder (sample_solver True)
                                sample_estimator ())))"
proof -
  have a: "fst (lost_finder () (width sample_estimator, height sample_estimator)
             (detector sample_estimator)) = False"
    by (simp add: lost_finder_def)
  show ?thesis
    using get_pose_not_found[where findCirclesGrid = lost_finder and self = sample_estimator
        and obs = "()" and solvePnP = "sample_solver True", OF a]
    by simp
qed

text \<open>
  Claim C8. A call to \<^verbatim>\<open>PoseEstimator.get_pose\<close> leaves the estimator, every field of
  it, as it was, and what it returns does not depend on the frame counter.
\<close>

theorem get_pose_stateless:
  "fst (snd (PoseEstimator_get_pose findCirclesGrid solvePnP self obs)) = self \<and>
   fst (PoseEstimator_get_pose findCirclesGrid solvePnP (self\<lparr>counter := c\<rparr>) obs) =
     fst (PoseEstimator_get_pose findCirclesGrid solvePnP self obs)"
  by (simp add: PoseEstimator_get_pose_def Let_def split: prod.splits option.splits sum.splits)

text \<open>
  Claim C9. For the same detection and the same output of the two solver calls made (the
  class's call with its own pattern, matrix and coefficients, and the free function's call
  with the 3 by 8 pattern and the matrix and coefficients of its option, 0 to 3), the
  class returns the position with the stand-off offset applied,
  \<open>(t2 - D * cos theta, 0, t0 + D * sin theta)\<close>, and the heading \<open>- rad2deg theta\<close>, while
  the free function returns the raw translation components \<open>(t0, 0, t2)\<close> and the heading
  \<open>rad2deg theta\<close>. The two results agree only when \<open>theta = 0\<close>, \<open>D = 0\<close> and
  \<open>t0 = t2\<close>.
\<close>

theorem implementations_diverge:
  assumes "findCirclesGrid obs (width self, height self) (detector self) = (True, Some image_points)"
    and "findCirclesGrid obs (8, 3) module_detector = (True, Some image_points)"
    and "solvePnP (circle_pattern self) image_points (camera_matrix self) (distortion_coefs self) =
           Inr (ok, (r0, theta, r2), (t0, t1, t2))"
    and "calc_circle_pattern 3 8 = Inr object_points"
    and "solvePnP object_points image_points
           (Some (free_cameraMatrix g option)) (Some (free_distCoeffs option)) =
           Inr (ok', (r0, theta, r2), (t0, t1, t2))"
    and "option \<in> {0, 1, 2, 3}"
  shows "fst (PoseEstimator_get_pose findCirclesGrid solvePnP self obs) =
           Inr (True, Some ((t2 - target_distance self * cos theta, 0,
                             t0 + target_distance self * sin theta), - rad2deg theta)) \<and>
         get_pose g findCirclesGrid solvePnP obs option =
           Inr (True, PoseList (t0, 0, t2) (rad2deg theta)) \<and>
         (fst (PoseEstimator_get_pose findCirclesGrid solvePnP self obs) =
            free_as_class (get_pose g findCirclesGrid solvePnP obs option)
          \<longleftrightarrow> theta = 0 \<and> target_distance self = 0 \<and> t0 = t2)"
proof -
  have cls: "fst (PoseEstimator_get_pose findCirclesGrid solvePnP self obs) =
           Inr (True, Some ((t2 - target_distance self * cos theta, 0,
                             t0 + target_distance self * sin theta), - rad2deg theta))"
    using assms(1,3) by (simp add: PoseEstimator_get_pose_def)
  have br: "get_pose_branch solvePnP True (Some image_points)
              (free_cameraMatrix g option) (free_distCoeffs option) =
           Inr (True, PoseList (t0, 0, t2) (rad2deg theta))"
    using get_pose_branch_found[where solvePnP = solvePnP and ps = object_points,
        OF assms(5) assms(4)]
    by simp
  have sel: "get_pose g findCirclesGrid solvePnP obs option =
           get_pose_branch solvePnP True (Some image_points)
              (free_cameraMatrix g option) (free_distCoeffs option)"
    using assms(2,6) by (auto simp: get_pose_def free_cameraMatrix_def free_distCoeffs_def)
  have free: "get_pose g findCirclesGrid solvePnP obs option =
           Inr (True, PoseList (t0, 0, t2) (rad2deg theta))"
    using sel br by simp
  have eq: "(- rad2deg theta = rad2deg theta) = (theta = 0)"
    by (simp add: rad2deg_def)
  have "(fst (PoseEstimator_get_pose findCirclesGrid solvePnP self obs) =
            free_as_class (get_pose g findCirclesGrid solvePnP obs option))
          \<longleftrightarrow> theta = 0 \<and> target_distance self = 0 \<and> t0 = t2"
    unfolding cls free using eq by (auto simp: free_as_class_def payload_pose_def)
  then show ?thesis using cls free by blast
qed

theorem implementations_diverge_witness:
  "fst (PoseEstimator_get_pose sample_finder strict_solver sample_estimator ()) =
     Inr (True, Some ((5 - 1 * cos 1, 0, 2 + 1 * sin 1), - rad2deg 1)) \<and>
   get_pose sample_rectifier sample_finder strict_solver () 3 =
     Inr (True, PoseList (2, 0, 5) (rad2deg 1)) \<and>
   fst (PoseEstimator_get_pose sample_finder strict_solver sample_estimator ()) \<noteq>
     free_as_class (get_pose sample_rectifier sample_finder strict_solver () 3)"
proof -
  obtain ps where ps: "calc_circle_pattern 3 8 = Inr ps" using free_pattern_3_8 by blast
  have a: "sample_finder () (width sample_estimator, height sample_estimator)
             (detector sample_estimator) = (True, Some [])"
    by (simp add: sample_finder_def)
  have b: "sample_finder () (8, 3) module_detector = (True, Some [])"
    by (simp add: sample_finder_def)
  have c: "strict_solver (circle_pattern sample_estimator) []
             (camera_matrix sample_estimator) (distortion_coefs sample_estimator) =
           Inr (True, (0, 1, 0), (2, 0, 5))"
    by (simp add: strict_solver_def sample_estimator_def)
  have d: "strict_solver ps [] (Some (free_cameraMatrix sample_rectifier 3))
             (Some (free_distCoeffs 3)) = Inr (True, (0, 1, 0), (2, 0, 5))"
    by (simp add: strict_solver_def)
  have e: "(3::int) \<in> {0, 1, 2, 3}" by simp
  have f: "target_distance sample_estimator = 1" by (simp add: sample_estimator_def)
  show ?thesis
    using implementations_diverge[where findCirclesGrid = sample_finder
        and solvePnP = strict_solver and self = sample_estimator and obs = "()"
        and g = sample_rectifier and object_points = ps and option = 3, OF a b c ps d e] f
    by (simp add: free_as_class_def payload_pose_def rad2deg_def)
qed

text \<open>
  Claim C10. In the free function \<^verbatim>\<open>get_pose\<close>, when the grid detector reports a
  detection and the option is not in \<open>{0, 1, 2, 3}\<close>, the result is \<open>(True, empty array)\<close>:
  found = true with no pose. Option 4 is such an option, although the class sets a matrix
  and coefficients for profile 4.
\<close>

theorem get_pose_unknown_option:
  assumes "fst (findCirclesGrid obs (8, 3) module_detector) = True"
    and "option \<notin> {0, 1, 2, 3}"
  shows "get_pose g findCirclesGrid solvePnP obs option = Inr (True, EmptyArray) \<and>
         payload_pose EmptyArray = None \<and>
         (option = 4 \<longrightarrow> camera_matrix (initialize_camera_matrix g self option) \<noteq> None \<and>
                          distortion_coefs (initialize_camera_matrix g self option) \<noteq> None)"
  using assms
  by (auto simp: get_pose_def payload_pose_def initialize_camera_matrix_def split: prod.splits)

theorem get_pose_unknown_option_witness:
  "get_pose sample_rectifier sample_finder (sample_solver True) () 4 = Inr (True, EmptyArray) \<and>
   camera_matrix (initialize_camera_matrix sample_rectifier sample_estimator 4) \<noteq> None"
proof -
  have a: "fst (sample_finder () (8, 3) module_detector) = True"
    by (simp add: sample_finder_def)
  have b: "(4::int) \<notin> {0, 1, 2, 3}" by simp
  show ?thesis
    using get_pose_unknown_option[where findCirclesGrid = sample_finder and obs = "()"
        and option = 4 and g = sample_rectifier and solvePnP = "sample_solver True"
        and self = sample_estimator, OF a b]
    by simp
qed

end
